theory Spec2Isabelle
  imports Complex_Main
begin

section \<open>The ecobee exporter: data as the collector sees it\<close>

text \<open>
  The collector of \<^verbatim>\<open>collector/collector.go\<close> talks to three collaborators that are not
  part of the repository: the ecobee API client, the Prometheus client library and the
  Go runtime (clock, \<^verbatim>\<open>float64\<close>, \<^verbatim>\<open>strconv\<close>). Their data is modelled field by field as
  far as the collector reads it; their behaviour is a parameter of the model.
\<close>

subsection \<open>Records of the ecobee API\<close>

text \<open>\<^verbatim>\<open>ecobee.Selection\<close>: the fields the collector sets; every other field keeps its zero value.\<close>

record ecobee_Selection =
  SelectionType :: string
  SelectionMatch :: string
  IncludeSensors :: bool
  IncludeRuntime :: bool
  IncludeSettings :: bool
  IncludeEquipmentStatus :: bool

record ecobee_Capability =
  cap_Type :: string
  cap_Value :: string

record ecobee_RemoteSensor =
  ID :: string
  sensor_Name :: string
  sensor_Type :: string
  InUse :: bool
  Capability :: "ecobee_Capability list"

text \<open>
  The temperatures of the runtime are Go \<^verbatim>\<open>int\<close>s in tenths of a degree. The collector only
  converts them to \<^verbatim>\<open>float64\<close>; it never computes with them, so they are plain integers here.
\<close>

record ecobee_Runtime =
  Connected :: bool
  ActualTemperature :: int
  DesiredHeat :: int
  DesiredCool :: int

record ecobee_Settings =
  HvacMode :: string

record ecobee_Thermostat =
  Identifier :: string
  Name :: string
  Runtime :: ecobee_Runtime
  Settings :: ecobee_Settings
  RemoteSensors :: "ecobee_RemoteSensor list"

record ecobee_EquipmentStatus =
  Fan :: bool
  CompCool1 :: bool
  HeatPump :: bool
  AuxHeat1 :: bool

record ecobee_ThermostatSummary =
  summary_Identifier :: string
  summary_Name :: string
  EquipmentStatus :: ecobee_EquipmentStatus

text \<open>
  The client, as one collection cycle sees it: each of the two operations answers a
  selection with an error (its message) or with the records fetched. The summaries are
  taken in the order in which the \<^verbatim>\<open>range\<close> loop of \<^verbatim>\<open>Collect\<close> visits them.
\<close>

record ecobee_Client =
  GetThermostats :: "ecobee_Selection \<Rightarrow> string + ecobee_Thermostat list"
  GetThermostatSummary :: "ecobee_Selection \<Rightarrow> string + ecobee_ThermostatSummary list"

subsection \<open>Descriptors and metrics of the Prometheus client\<close>

record Desc =
  fqName :: string
  help_text :: string
  variableLabels :: "string list"

datatype ValueType = CounterValue | GaugeValue | UntypedValue

record 'f Metric =
  desc :: Desc
  valueType :: ValueType
  metric_value :: 'f
  labelValues :: "string list"

text \<open>
  \<^verbatim>\<open>prometheus.NewDesc(fqName, help, variableLabels, nil)\<close> returns a descriptor and never
  fails.
\<close>

definition NewDesc :: "string \<Rightarrow> string \<Rightarrow> string list \<Rightarrow> Desc" where
  "NewDesc name h ls = \<lparr>fqName = name, help_text = h, variableLabels = ls\<rparr>"

text \<open>
  \<^verbatim>\<open>prometheus.MustNewConstMetric\<close>: the constant-metric constructor. It panics when the
  number of label values differs from the number of label names the descriptor declares
  (\<open>Inl\<close> carries the panic); otherwise it returns the sample. What else the library
  validates (the syntax of metric and label names, the encoding of label values) is not
  in the repository and not part of this model.
\<close>

definition MustNewConstMetric ::
    "Desc \<Rightarrow> ValueType \<Rightarrow> 'f \<Rightarrow> string list \<Rightarrow> string + 'f Metric" where
  "MustNewConstMetric d vt v lvs =
     (if length lvs \<noteq> length (variableLabels d)
      then Inl ''inconsistent label cardinality''
      else Inr \<lparr>desc = d, valueType = vt, metric_value = v, labelValues = lvs\<rparr>)"

subsection \<open>The Go runtime: float64, strconv and the clock\<close>

text \<open>
  \<^verbatim>\<open>float64\<close> is a type parameter \<open>'f\<close>, and the operations the collector applies to it
  are taken as given: the conversion \<^verbatim>\<open>float64(n)\<close> of an integer (also the reading of
  the constants \<^verbatim>\<open>0.0\<close>, \<^verbatim>\<open>1.0\<close>, \<^verbatim>\<open>10\<close>), the division, \<^verbatim>\<open>strconv.ParseFloat(s, 64)\<close>
  (an error message or the value) and \<^verbatim>\<open>Duration.Seconds()\<close>. Every theorem holds for
  all such operations, IEEE 754 arithmetic among them.
\<close>

record 'f float64_ops =
  float64 :: "int \<Rightarrow> 'f"
  fdiv :: "'f \<Rightarrow> 'f \<Rightarrow> 'f"
  ParseFloat :: "string \<Rightarrow> string + 'f"
  Seconds :: "int \<Rightarrow> 'f"

text \<open>
  The two readings of \<^verbatim>\<open>time.Now()\<close> in one cycle, in nanoseconds, and \<^verbatim>\<open>Time.Sub\<close>, which
  saturates at the range of a \<^verbatim>\<open>Duration\<close> (a signed 64-bit count of nanoseconds).
\<close>

record Clock =
  Now_start :: int
  Now_end :: int

definition minDuration :: int where
  "minDuration = - (2 ^ 63)"

definition maxDuration :: int where
  "maxDuration = 2 ^ 63 - 1"

definition Sub :: "int \<Rightarrow> int \<Rightarrow> int" where
  "Sub t u = (if t - u < minDuration then minDuration
              else if maxDuration < t - u then maxDuration else t - u)"

text \<open>\<^verbatim>\<open>strings.Join(elems, sep)\<close>.\<close>

fun Join :: "string list \<Rightarrow> string \<Rightarrow> string" where
  "Join [] sep = []"
| "Join [x] sep = x"
| "Join (x # y # ys) sep = x @ sep @ Join (y # ys) sep"

subsection \<open>What a run does: calls, sends, log lines, and how it ends\<close>

datatype log_entry =
    LogError string
  | LogErrorf string string
  | LogInfof string string

datatype 'f event =
    Call_GetThermostats ecobee_Selection
  | Call_GetThermostatSummary ecobee_Selection
  | SendDesc Desc
  | SendMetric "'f Metric"
  | Log log_entry

text \<open>
  A run is the sequence of its events and the way it ended: \<open>None\<close> when the code ran to
  its end or returned, \<open>Some msg\<close> when it panicked. What was sent before a panic stays
  sent.
\<close>

type_synonym 'f run = "'f event list \<times> string option"

fun andThen :: "'f run \<Rightarrow> 'f run \<Rightarrow> 'f run" where
  "andThen (es, Some p) r = (es, Some p)"
| "andThen (es, None) (es', x) = (es @ es', x)"

text \<open>\<^verbatim>\<open>for _, x := range xs { body }\<close>\<close>

fun for_range :: "('a \<Rightarrow> 'f run) \<Rightarrow> 'a list \<Rightarrow> 'f run" where
  "for_range body [] = ([], None)"
| "for_range body (x # xs) = andThen (body x) (for_range body xs)"

text \<open>\<^verbatim>\<open>ch <- prometheus.MustNewConstMetric(d, prometheus.GaugeValue, v, lvs...)\<close>\<close>

definition emit :: "Desc \<Rightarrow> 'f \<Rightarrow> string list \<Rightarrow> 'f run" where
  "emit d v lvs =
     (case MustNewConstMetric d GaugeValue v lvs of
        Inl p \<Rightarrow> ([], Some p)
      | Inr m \<Rightarrow> ([SendMetric m], None))"

definition sent :: "'f event list \<Rightarrow> 'f Metric list" where
  "sent es = concat (map (\<lambda>e. case e of SendMetric m \<Rightarrow> [m] | _ \<Rightarrow> []) es)"

definition sent_descs :: "'f event list \<Rightarrow> Desc list" where
  "sent_descs es = concat (map (\<lambda>e. case e of SendDesc d \<Rightarrow> [d] | _ \<Rightarrow> []) es)"

definition is_call :: "'f event \<Rightarrow> bool" where
  "is_call e = (case e of Call_GetThermostats _ \<Rightarrow> True
                        | Call_GetThermostatSummary _ \<Rightarrow> True
                        | _ \<Rightarrow> False)"

section \<open>The descriptor registry\<close>

text \<open>\<^verbatim>\<open>func (d descs) new(fqName, help string, variableLabels []string) *prometheus.Desc\<close>\<close>

definition descs_new :: "string \<Rightarrow> string \<Rightarrow> string \<Rightarrow> string list \<Rightarrow> Desc" where
  "descs_new d name h ls = NewDesc (d @ ''_'' @ name) h ls"

record eCollector =
  client :: ecobee_Client
  fetchTime :: Desc
  actualTemperature :: Desc
  targetTemperatureMin :: Desc
  targetTemperatureMax :: Desc
  temperature :: Desc
  humidity :: Desc
  occupancy :: Desc
  inUse :: Desc
  currentHvacMode :: Desc
  fanStatus :: Desc
  mode :: Desc

definition NewEcobeeCollector :: "ecobee_Client \<Rightarrow> string \<Rightarrow> eCollector" where
  "NewEcobeeCollector c metricPrefix =
     (let d = metricPrefix;
          runtime = [''thermostat_id'', ''thermostat_name''];
          sensor = runtime @ [''sensor_id'', ''sensor_name'', ''sensor_type'']
      in \<lparr>client = c,
          fetchTime = descs_new d ''fetch_time''
            ''elapsed time fetching data via Ecobee API'' [],
          actualTemperature = descs_new d ''actual_temperature''
            ''thermostat-averaged current temperature'' runtime,
          targetTemperatureMin = descs_new d ''target_temperature_min''
            ''minimum temperature for thermostat to maintain'' runtime,
          targetTemperatureMax = descs_new d ''target_temperature_max''
            ''maximum temperature for thermostat to maintain'' runtime,
          temperature = descs_new d ''temperature''
            ''temperature reported by a sensor in degrees'' sensor,
          humidity = descs_new d ''humidity''
            ''humidity reported by a sensor in percent'' sensor,
          occupancy = descs_new d ''occupancy''
            ''occupancy reported by a sensor (0 or 1)'' sensor,
          inUse = descs_new d ''in_use''
            ''is sensor being used in thermostat calculations (0 or 1)'' sensor,
          currentHvacMode = descs_new d ''currenthvacmode''
            ''current hvac mode of thermostat''
            [''thermostat_id'', ''thermostat_name'', ''current_hvac_mode''],
          fanStatus = descs_new d ''fan_status''
            ''current status of the fan'' [''thermostat_id'', ''thermostat_name''],
          mode = descs_new d ''mode''
            ''current operating mode'' [''thermostat_id'', ''thermostat_name'', ''mode'']\<rparr>)"

text \<open>\<^verbatim>\<open>Describe\<close> sends the eleven descriptors, in the order of the source.\<close>

definition descriptors :: "eCollector \<Rightarrow> Desc list" where
  "descriptors c =
     [fetchTime c, actualTemperature c, targetTemperatureMax c, targetTemperatureMin c,
      temperature c, humidity c, occupancy c, inUse c, currentHvacMode c, fanStatus c,
      mode c]"

definition Describe :: "eCollector \<Rightarrow> 'f run" where
  "Describe c = (map SendDesc (descriptors c), None)"

section \<open>One collection cycle\<close>

text \<open>The body of the loop over the summaries (lines 155 to 184).\<close>

definition summary_iter ::
    "'f float64_ops \<Rightarrow> eCollector \<Rightarrow> ecobee_ThermostatSummary \<Rightarrow> 'f run" where
  "summary_iter ops c t =
     (let fanStatus_v = (if Fan (EquipmentStatus t) then float64 ops 1 else float64 ops 0);
          coolStatus = (if CompCool1 (EquipmentStatus t) then float64 ops 1 else float64 ops 0);
          heatStatus = (if HeatPump (EquipmentStatus t) then float64 ops 1 else float64 ops 0);
          auxStatus = (if AuxHeat1 (EquipmentStatus t) then float64 ops 1 else float64 ops 0)
      in andThen (emit (fanStatus c) fanStatus_v [summary_Identifier t, summary_Name t])
        (andThen (emit (mode c) coolStatus [summary_Identifier t, summary_Name t, ''cool''])
        (andThen (emit (mode c) heatStatus [summary_Identifier t, summary_Name t, ''heat''])
                 (emit (mode c) auxStatus [summary_Identifier t, summary_Name t, ''aux'']))))"

text \<open>The body of the loop over the capabilities of one sensor (lines 210 to 244).\<close>

definition capability_iter ::
    "'f float64_ops \<Rightarrow> eCollector \<Rightarrow> string list \<Rightarrow> ecobee_Capability \<Rightarrow> 'f run" where
  "capability_iter ops c sFields sc =
     (if cap_Type sc = ''temperature'' then
        (case ParseFloat ops (cap_Value sc) of
           Inr v \<Rightarrow> emit (temperature c) (fdiv ops v (float64 ops 10)) sFields
         | Inl err \<Rightarrow> ([Log (LogError err)], None))
      else if cap_Type sc = ''humidity'' then
        (case ParseFloat ops (cap_Value sc) of
           Inr v \<Rightarrow> emit (humidity c) v sFields
         | Inl err \<Rightarrow> ([Log (LogError err)], None))
      else if cap_Type sc = ''occupancy'' then
        (if cap_Value sc = ''true'' then emit (occupancy c) (float64 ops 1) sFields
         else if cap_Value sc = ''false'' then emit (occupancy c) (float64 ops 0) sFields
         else ([Log (LogErrorf ''unknown sensor occupancy value %q'' (cap_Value sc))], None))
      else ([Log (LogInfof ''ignoring sensor capability %q'' (cap_Type sc))], None))"

text \<open>The body of the loop over the remote sensors of one thermostat (lines 201 to 245).\<close>

definition sensor_iter ::
    "'f float64_ops \<Rightarrow> eCollector \<Rightarrow> string list \<Rightarrow> ecobee_RemoteSensor \<Rightarrow> 'f run" where
  "sensor_iter ops c tFields s =
     (let sFields = tFields @ [ID s, sensor_Name s, sensor_Type s];
          inUse_v = (if InUse s then float64 ops 1 else float64 ops 0)
      in andThen (emit (inUse c) inUse_v sFields)
                 (for_range (capability_iter ops c sFields) (Capability s)))"

text \<open>The body of the loop over the thermostats (lines 185 to 246).\<close>

definition thermostat_iter ::
    "'f float64_ops \<Rightarrow> eCollector \<Rightarrow> ecobee_Thermostat \<Rightarrow> 'f run" where
  "thermostat_iter ops c t =
     (let tFields = [Identifier t, Name t]
      in andThen
           (if Connected (Runtime t) then
              andThen (emit (actualTemperature c)
                         (fdiv ops (float64 ops (ActualTemperature (Runtime t))) (float64 ops 10))
                         tFields)
             (andThen (emit (targetTemperatureMax c)
                         (fdiv ops (float64 ops (DesiredCool (Runtime t))) (float64 ops 10))
                         tFields)
             (andThen (emit (targetTemperatureMin c)
                         (fdiv ops (float64 ops (DesiredHeat (Runtime t))) (float64 ops 10))
                         tFields)
                      (emit (currentHvacMode c) (float64 ops 0)
                         [Identifier t, Name t, HvacMode (Settings t)])))
            else ([], None))
           (for_range (sensor_iter ops c tFields) (RemoteSensors t)))"

definition thermostats_selection :: ecobee_Selection where
  "thermostats_selection =
     \<lparr>SelectionType = ''registered'', SelectionMatch = '''',
      IncludeSensors = True, IncludeRuntime = True, IncludeSettings = True,
      IncludeEquipmentStatus = False\<rparr>"

definition summary_selection :: "string list \<Rightarrow> ecobee_Selection" where
  "summary_selection ids =
     \<lparr>SelectionType = ''thermostats'', SelectionMatch = Join ids '','',
      IncludeSensors = False, IncludeRuntime = False, IncludeSettings = False,
      IncludeEquipmentStatus = True\<rparr>"

text \<open>\<^verbatim>\<open>func (c *eCollector) Collect(ch chan<- prometheus.Metric)\<close>, here \<open>Collect_metrics\<close>.\<close>

definition Collect_metrics :: "'f float64_ops \<Rightarrow> Clock \<Rightarrow> eCollector \<Rightarrow> 'f run" where
  "Collect_metrics ops clk c =
     (let start = Now_start clk
      in case GetThermostats (client c) thermostats_selection of
           Inl err \<Rightarrow>
             ([Call_GetThermostats thermostats_selection, Log (LogError err)], None)
         | Inr tt \<Rightarrow>
             (let ids = map Identifier tt
              in case GetThermostatSummary (client c) (summary_selection ids) of
                   Inl err \<Rightarrow>
                     ([Call_GetThermostats thermostats_selection,
                       Call_GetThermostatSummary (summary_selection ids),
                       Log (LogError err)], None)
                 | Inr ts \<Rightarrow>
                     (let elapsed = Sub (Now_end clk) start
                      in andThen ([Call_GetThermostats thermostats_selection,
                                   Call_GetThermostatSummary (summary_selection ids)], None)
                        (andThen (emit (fetchTime c) (Seconds ops elapsed) [])
                        (andThen (for_range (summary_iter ops c) ts)
                                 (for_range (thermostat_iter ops c) tt))))))"

section \<open>A concrete installation, for evaluating the model\<close>

text \<open>
  Exact arithmetic stands for \<^verbatim>\<open>float64\<close> in the examples, and \<^verbatim>\<open>ParseFloat\<close> reads
  unsigned decimal numerals only; both agree with Go on the numbers used below, and
  the text of the parse error is shortened.
\<close>

definition digit_of :: "char \<Rightarrow> nat option" where
  "digit_of ch = (if ch \<in> set ''0123456789'' then Some (of_char ch - 48) else None)"

fun decimal :: "nat \<Rightarrow> string \<Rightarrow> nat option" where
  "decimal acc [] = Some acc"
| "decimal acc (ch # cs) =
     (case digit_of ch of None \<Rightarrow> None | Some d \<Rightarrow> decimal (10 * acc + d) cs)"

definition example_ParseFloat :: "string \<Rightarrow> string + real" where
  "example_ParseFloat s =
     (case (if s = [] then None else decimal 0 s) of
        Some n \<Rightarrow> Inr (real n)
      | None \<Rightarrow> Inl (''strconv.ParseFloat: parsing '' @ s @ '': invalid syntax''))"

definition example_ops :: "real float64_ops" where
  "example_ops =
     \<lparr>float64 = real_of_int, fdiv = (/), ParseFloat = example_ParseFloat,
      Seconds = (\<lambda>d. real_of_int d / 1000000000)\<rparr>"

definition example_clock :: Clock where
  "example_clock = \<lparr>Now_start = 1000000000, Now_end = 1250000000\<rparr>"

definition bedroom :: ecobee_RemoteSensor where
  "bedroom =
     \<lparr>ID = ''rs:100'', sensor_Name = ''Bedroom'', sensor_Type = ''ecobee3_remote_sensor'',
      InUse = True,
      Capability =
        [\<lparr>cap_Type = ''temperature'', cap_Value = ''725''\<rparr>,
         \<lparr>cap_Type = ''temperature'', cap_Value = ''abc''\<rparr>,
         \<lparr>cap_Type = ''humidity'', cap_Value = ''41''\<rparr>,
         \<lparr>cap_Type = ''occupancy'', cap_Value = ''maybe''\<rparr>,
         \<lparr>cap_Type = ''occupancy'', cap_Value = ''true''\<rparr>]\<rparr>"

definition porch :: ecobee_RemoteSensor where
  "porch =
     \<lparr>ID = ''rs:200'', sensor_Name = ''Porch'', sensor_Type = ''ecobee3_remote_sensor'',
      InUse = False,
      Capability =
        [\<lparr>cap_Type = ''humidity'', cap_Value = ''unknown''\<rparr>,
         \<lparr>cap_Type = ''occupancy'', cap_Value = ''false''\<rparr>]\<rparr>"

definition hall :: ecobee_Thermostat where
  "hall =
     \<lparr>Identifier = ''411'', Name = ''Hall'',
      Runtime = \<lparr>Connected = True, ActualTemperature = 705, DesiredHeat = 680,
                 DesiredCool = 760\<rparr>,
      Settings = \<lparr>HvacMode = ''heat''\<rparr>,
      RemoteSensors = [bedroom]\<rparr>"

definition attic :: ecobee_Thermostat where
  "attic =
     \<lparr>Identifier = ''412'', Name = ''Attic'',
      Runtime = \<lparr>Connected = False, ActualTemperature = 0, DesiredHeat = 0, DesiredCool = 0\<rparr>,
      Settings = \<lparr>HvacMode = ''off''\<rparr>,
      RemoteSensors = [porch]\<rparr>"

definition hall_summary :: ecobee_ThermostatSummary where
  "hall_summary =
     \<lparr>summary_Identifier = ''411'', summary_Name = ''Hall'',
      EquipmentStatus = \<lparr>Fan = True, CompCool1 = True, HeatPump = False, AuxHeat1 = False\<rparr>\<rparr>"

definition example_client :: ecobee_Client where
  "example_client =
     \<lparr>GetThermostats = (\<lambda>sel. Inr [hall, attic]),
      GetThermostatSummary = (\<lambda>sel. Inr [hall_summary])\<rparr>"

definition thermostats_fail_client :: ecobee_Client where
  "thermostats_fail_client =
     \<lparr>GetThermostats = (\<lambda>sel. Inl ''401 Unauthorized''),
      GetThermostatSummary = (\<lambda>sel. Inr [hall_summary])\<rparr>"

definition summary_fails_client :: ecobee_Client where
  "summary_fails_client =
     \<lparr>GetThermostats = (\<lambda>sel. Inr [hall, attic]),
      GetThermostatSummary = (\<lambda>sel. Inl ''503 Service Unavailable'')\<rparr>"


definition nothing_client :: ecobee_Client where
  "nothing_client =
     \<lparr>GetThermostats = (\<lambda>sel. Inr []), GetThermostatSummary = (\<lambda>sel. Inr [])\<rparr>"

section \<open>How runs compose\<close>

lemma andThen_returns: "snd a = None \<Longrightarrow> andThen a b = (fst a @ fst b, snd b)"
  by (cases a; cases b) simp

lemma for_range_returns:
  "(\<And>x. x \<in> set xs \<Longrightarrow> snd (body x) = None) \<Longrightarrow>
   for_range body xs = (concat (map (\<lambda>x. fst (body x)) xs), None)"
  by (induction xs) (simp_all add: andThen_returns)

lemma emit_ok:
  "length lvs = length (variableLabels d) \<Longrightarrow>
   emit d v lvs =
     ([SendMetric \<lparr>desc = d, valueType = GaugeValue, metric_value = v, labelValues = lvs\<rparr>], None)"
  by (simp add: emit_def MustNewConstMetric_def)

lemma sent_Nil [simp]: "sent [] = []"
  by (simp add: sent_def)

lemma sent_Cons [simp]:
  "sent (e # es) = (case e of SendMetric m \<Rightarrow> [m] | _ \<Rightarrow> []) @ sent es"
  by (simp add: sent_def)

lemma sent_append [simp]: "sent (xs @ ys) = sent xs @ sent ys"
  by (simp add: sent_def)

lemma sent_concat: "sent (concat xss) = concat (map sent xss)"
  by (induction xss) (simp_all add: sent_Nil sent_append)

lemma labels_of_collector:
  "variableLabels (fetchTime (NewEcobeeCollector cl p)) = []"
  "variableLabels (actualTemperature (NewEcobeeCollector cl p)) = [''thermostat_id'', ''thermostat_name'']"
  "variableLabels (targetTemperatureMax (NewEcobeeCollector cl p)) = [''thermostat_id'', ''thermostat_name'']"
  "variableLabels (targetTemperatureMin (NewEcobeeCollector cl p)) = [''thermostat_id'', ''thermostat_name'']"
  "variableLabels (temperature (NewEcobeeCollector cl p)) =
     [''thermostat_id'', ''thermostat_name'', ''sensor_id'', ''sensor_name'', ''sensor_type'']"
  "variableLabels (humidity (NewEcobeeCollector cl p)) =
     [''thermostat_id'', ''thermostat_name'', ''sensor_id'', ''sensor_name'', ''sensor_type'']"
  "variableLabels (occupancy (NewEcobeeCollector cl p)) =
     [''thermostat_id'', ''thermostat_name'', ''sensor_id'', ''sensor_name'', ''sensor_type'']"
  "variableLabels (inUse (NewEcobeeCollector cl p)) =
     [''thermostat_id'', ''thermostat_name'', ''sensor_id'', ''sensor_name'', ''sensor_type'']"
  "variableLabels (currentHvacMode (NewEcobeeCollector cl p)) =
     [''thermostat_id'', ''thermostat_name'', ''current_hvac_mode'']"
  "variableLabels (fanStatus (NewEcobeeCollector cl p)) = [''thermostat_id'', ''thermostat_name'']"
  "variableLabels (mode (NewEcobeeCollector cl p)) = [''thermostat_id'', ''thermostat_name'', ''mode'']"
  by (simp_all add: NewEcobeeCollector_def Let_def descs_new_def NewDesc_def)

lemma names_of_collector:
  "fqName (fetchTime (NewEcobeeCollector cl p)) = p @ ''_fetch_time''"
  "fqName (actualTemperature (NewEcobeeCollector cl p)) = p @ ''_actual_temperature''"
  "fqName (targetTemperatureMax (NewEcobeeCollector cl p)) = p @ ''_target_temperature_max''"
  "fqName (targetTemperatureMin (NewEcobeeCollector cl p)) = p @ ''_target_temperature_min''"
  "fqName (temperature (NewEcobeeCollector cl p)) = p @ ''_temperature''"
  "fqName (humidity (NewEcobeeCollector cl p)) = p @ ''_humidity''"
  "fqName (occupancy (NewEcobeeCollector cl p)) = p @ ''_occupancy''"
  "fqName (inUse (NewEcobeeCollector cl p)) = p @ ''_in_use''"
  "fqName (currentHvacMode (NewEcobeeCollector cl p)) = p @ ''_currenthvacmode''"
  "fqName (fanStatus (NewEcobeeCollector cl p)) = p @ ''_fan_status''"
  "fqName (mode (NewEcobeeCollector cl p)) = p @ ''_mode''"
  by (simp_all add: NewEcobeeCollector_def Let_def descs_new_def NewDesc_def)

lemma distinct_names:
  "distinct (map fqName (descriptors (NewEcobeeCollector cl p)))"
  by (simp add: descriptors_def names_of_collector)

lemma client_of_collector: "client (NewEcobeeCollector cl p) = cl"
  by (simp add: NewEcobeeCollector_def Let_def)

lemma summary_iter_ok:
  "summary_iter ops (NewEcobeeCollector cl p) t =
     ([SendMetric \<lparr>desc = fanStatus (NewEcobeeCollector cl p), valueType = GaugeValue,
          metric_value = (if Fan (EquipmentStatus t) then float64 ops 1 else float64 ops 0),
          labelValues = [summary_Identifier t, summary_Name t]\<rparr>,
       SendMetric \<lparr>desc = mode (NewEcobeeCollector cl p), valueType = GaugeValue,
          metric_value = (if CompCool1 (EquipmentStatus t) then float64 ops 1 else float64 ops 0),
          labelValues = [summary_Identifier t, summary_Name t, ''cool'']\<rparr>,
       SendMetric \<lparr>desc = mode (NewEcobeeCollector cl p), valueType = GaugeValue,
          metric_value = (if HeatPump (EquipmentStatus t) then float64 ops 1 else float64 ops 0),
          labelValues = [summary_Identifier t, summary_Name t, ''heat'']\<rparr>,
       SendMetric \<lparr>desc = mode (NewEcobeeCollector cl p), valueType = GaugeValue,
          metric_value = (if AuxHeat1 (EquipmentStatus t) then float64 ops 1 else float64 ops 0),
          labelValues = [summary_Identifier t, summary_Name t, ''aux'']\<rparr>], None)"
  by (simp add: summary_iter_def Let_def emit_ok labels_of_collector)

lemma capability_iter_returns:
  "length sFields = 5 \<Longrightarrow> snd (capability_iter ops (NewEcobeeCollector cl p) sFields sc) = None"
  by (simp add: capability_iter_def emit_ok labels_of_collector split: sum.split)

lemma capabilities_loop:
  "length sFields = 5 \<Longrightarrow>
   for_range (capability_iter ops (NewEcobeeCollector cl p) sFields) caps =
     (concat (map (\<lambda>sc. fst (capability_iter ops (NewEcobeeCollector cl p) sFields sc)) caps), None)"
  by (rule for_range_returns) (rule capability_iter_returns)

lemma sensor_iter_ok:
  "length tFields = 2 \<Longrightarrow>
   sensor_iter ops (NewEcobeeCollector cl p) tFields s =
     (SendMetric \<lparr>desc = inUse (NewEcobeeCollector cl p), valueType = GaugeValue,
         metric_value = (if InUse s then float64 ops 1 else float64 ops 0),
         labelValues = tFields @ [ID s, sensor_Name s, sensor_Type s]\<rparr> #
      concat (map (\<lambda>sc. fst (capability_iter ops (NewEcobeeCollector cl p)
                                 (tFields @ [ID s, sensor_Name s, sensor_Type s]) sc))
                  (Capability s)), None)"
  by (simp add: sensor_iter_def Let_def emit_ok labels_of_collector capabilities_loop)

lemma sensors_loop:
  "length tFields = 2 \<Longrightarrow>
   for_range (sensor_iter ops (NewEcobeeCollector cl p) tFields) ss =
     (concat (map (\<lambda>s. fst (sensor_iter ops (NewEcobeeCollector cl p) tFields s)) ss), None)"
  by (rule for_range_returns) (simp add: sensor_iter_ok)

lemma thermostat_iter_ok:
  "thermostat_iter ops (NewEcobeeCollector cl p) t =
     ((if Connected (Runtime t) then
         [SendMetric \<lparr>desc = actualTemperature (NewEcobeeCollector cl p), valueType = GaugeValue,
            metric_value = fdiv ops (float64 ops (ActualTemperature (Runtime t))) (float64 ops 10),
            labelValues = [Identifier t, Name t]\<rparr>,
          SendMetric \<lparr>desc = targetTemperatureMax (NewEcobeeCollector cl p), valueType = GaugeValue,
            metric_value = fdiv ops (float64 ops (DesiredCool (Runtime t))) (float64 ops 10),
            labelValues = [Identifier t, Name t]\<rparr>,
          SendMetric \<lparr>desc = targetTemperatureMin (NewEcobeeCollector cl p), valueType = GaugeValue,
            metric_value = fdiv ops (float64 ops (DesiredHeat (Runtime t))) (float64 ops 10),
            labelValues = [Identifier t, Name t]\<rparr>,
          SendMetric \<lparr>desc = currentHvacMode (NewEcobeeCollector cl p), valueType = GaugeValue,
            metric_value = float64 ops 0,
            labelValues = [Identifier t, Name t, HvacMode (Settings t)]\<rparr>]
       else []) @
      concat (map (\<lambda>s. fst (sensor_iter ops (NewEcobeeCollector cl p) [Identifier t, Name t] s))
                  (RemoteSensors t)), None)"
  by (simp add: thermostat_iter_def Let_def emit_ok labels_of_collector sensors_loop)

lemma summaries_loop:
  "for_range (summary_iter ops (NewEcobeeCollector cl p)) ts =
     (concat (map (\<lambda>t. fst (summary_iter ops (NewEcobeeCollector cl p) t)) ts), None)"
  by (rule for_range_returns) (simp add: summary_iter_ok)

lemma thermostats_loop:
  "for_range (thermostat_iter ops (NewEcobeeCollector cl p)) tt =
     (concat (map (\<lambda>t. fst (thermostat_iter ops (NewEcobeeCollector cl p) t)) tt), None)"
  by (rule for_range_returns) (simp add: thermostat_iter_ok)

lemma Collect_ok:
  assumes "GetThermostats cl thermostats_selection = Inr tt"
    and "GetThermostatSummary cl (summary_selection (map Identifier tt)) = Inr ts"
  shows "Collect_metrics ops clk (NewEcobeeCollector cl p) =
     ([Call_GetThermostats thermostats_selection,
       Call_GetThermostatSummary (summary_selection (map Identifier tt)),
       SendMetric \<lparr>desc = fetchTime (NewEcobeeCollector cl p), valueType = GaugeValue,
          metric_value = Seconds ops (Sub (Now_end clk) (Now_start clk)), labelValues = []\<rparr>] @
      concat (map (\<lambda>t. fst (summary_iter ops (NewEcobeeCollector cl p) t)) ts) @
      concat (map (\<lambda>t. fst (thermostat_iter ops (NewEcobeeCollector cl p) t)) tt), None)"
  using assms
  by (simp add: Collect_metrics_def Let_def client_of_collector emit_ok labels_of_collector
      summaries_loop thermostats_loop)

section \<open>The two fetches\<close>

text \<open>
  C2. When the first API call (fetch thermostats) fails, the cycle logs the error and
  returns: nothing is sent, and the run ends normally, without a panic. This holds for
  every collector value, every clock and every float arithmetic.
\<close>

theorem first_call_fails_no_samples:
  assumes "GetThermostats (client c) thermostats_selection = Inl err"
  shows "Collect_metrics ops clk c =
           ([Call_GetThermostats thermostats_selection, Log (LogError err)], None)
       \<and> sent (fst (Collect_metrics ops clk c)) = []
       \<and> snd (Collect_metrics ops clk c) = None"
  using assms by (simp add: Collect_metrics_def)

theorem first_call_fails_no_samples_witness:
  "GetThermostats (client (NewEcobeeCollector thermostats_fail_client ''ecobee''))
     thermostats_selection = Inl ''401 Unauthorized''
   \<and> sent (fst (Collect_metrics example_ops example_clock
                   (NewEcobeeCollector thermostats_fail_client ''ecobee''))) = []
   \<and> snd (Collect_metrics example_ops example_clock
             (NewEcobeeCollector thermostats_fail_client ''ecobee'')) = None"
proof -
  have h: "GetThermostats (client (NewEcobeeCollector thermostats_fail_client ''ecobee''))
             thermostats_selection = Inl ''401 Unauthorized''"
    by (simp add: client_of_collector thermostats_fail_client_def)
  show ?thesis
    using h first_call_fails_no_samples [OF h, of example_ops example_clock] by simp
qed

text \<open>
  C1, as the specification states it: when the first call succeeds and the second
  (fetch thermostat summary) fails, exactly one sample, fetchTime, has been sent. The
  source sends fetchTime only after the second call has succeeded (lines 149 to 154), so
  here the cycle with two thermostats and a failing summary call sends no sample at all.
\<close>

theorem second_call_fails_counterexample:
  "GetThermostats summary_fails_client thermostats_selection = Inr [hall, attic]
   \<and> GetThermostatSummary summary_fails_client (summary_selection (map Identifier [hall, attic]))
       = Inl ''503 Service Unavailable''
   \<and> length (sent (fst (Collect_metrics example_ops example_clock
                          (NewEcobeeCollector summary_fails_client ''ecobee'')))) \<noteq> 1"
  by (simp add: Collect_metrics_def client_of_collector summary_fails_client_def)

text \<open>
  C1, amended: when the first call succeeds and the second fails, the cycle issues both
  calls, logs the error of the second and returns; no sample is sent, fetchTime neither.
\<close>

theorem second_call_fails_no_samples:
  assumes "GetThermostats (client c) thermostats_selection = Inr tt"
    and "GetThermostatSummary (client c) (summary_selection (map Identifier tt)) = Inl err"
  shows "Collect_metrics ops clk c =
           ([Call_GetThermostats thermostats_selection,
             Call_GetThermostatSummary (summary_selection (map Identifier tt)),
             Log (LogError err)], None)
       \<and> sent (fst (Collect_metrics ops clk c)) = []"
  using assms by (simp add: Collect_metrics_def)

theorem second_call_fails_no_samples_witness:
  "GetThermostats (client (NewEcobeeCollector summary_fails_client ''ecobee''))
     thermostats_selection = Inr [hall, attic]
   \<and> GetThermostatSummary (client (NewEcobeeCollector summary_fails_client ''ecobee''))
        (summary_selection (map Identifier [hall, attic])) = Inl ''503 Service Unavailable''
   \<and> sent (fst (Collect_metrics example_ops example_clock
                   (NewEcobeeCollector summary_fails_client ''ecobee''))) = []"
proof -
  have h1: "GetThermostats (client (NewEcobeeCollector summary_fails_client ''ecobee''))
              thermostats_selection = Inr [hall, attic]"
    by (simp add: client_of_collector summary_fails_client_def)
  have h2: "GetThermostatSummary (client (NewEcobeeCollector summary_fails_client ''ecobee''))
              (summary_selection (map Identifier [hall, attic])) = Inl ''503 Service Unavailable''"
    by (simp add: client_of_collector summary_fails_client_def)
  show ?thesis
    using h1 h2 second_call_fails_no_samples [OF h1 h2, of example_ops example_clock] by simp
qed

section \<open>What the loops send\<close>


lemma sent_capability_iter_cases:
  assumes "length sFields = 5" and "m \<in> set (sent (fst (capability_iter ops (NewEcobeeCollector cl p) sFields sc)))"
  shows "desc m = temperature (NewEcobeeCollector cl p) \<or> desc m = humidity (NewEcobeeCollector cl p)
       \<or> desc m = occupancy (NewEcobeeCollector cl p)"
  using assms
  by (auto simp add: capability_iter_def emit_ok labels_of_collector split: sum.splits if_splits)

lemma sent_sensor_iter_cases:
  assumes "length tFields = 2" and "m \<in> set (sent (fst (sensor_iter ops (NewEcobeeCollector cl p) tFields s)))"
  shows "desc m = inUse (NewEcobeeCollector cl p) \<or> desc m = temperature (NewEcobeeCollector cl p)
       \<or> desc m = humidity (NewEcobeeCollector cl p) \<or> desc m = occupancy (NewEcobeeCollector cl p)"
proof -
  from assms(2) have "desc m = inUse (NewEcobeeCollector cl p) \<or>
    (\<exists>sc. m \<in> set (sent (fst (capability_iter ops (NewEcobeeCollector cl p)
                 (tFields @ [ID s, sensor_Name s, sensor_Type s]) sc))))"
    by (auto simp add: sensor_iter_ok [OF assms(1)] sent_concat)
  moreover have "length (tFields @ [ID s, sensor_Name s, sensor_Type s]) = 5"
    using assms(1) by simp
  ultimately show ?thesis
    using sent_capability_iter_cases by blast
qed

lemma sent_thermostat_iter:
  "sent (fst (thermostat_iter ops (NewEcobeeCollector cl p) t)) =
     (if Connected (Runtime t) then
         [\<lparr>desc = actualTemperature (NewEcobeeCollector cl p), valueType = GaugeValue,
            metric_value = fdiv ops (float64 ops (ActualTemperature (Runtime t))) (float64 ops 10),
            labelValues = [Identifier t, Name t]\<rparr>,
          \<lparr>desc = targetTemperatureMax (NewEcobeeCollector cl p), valueType = GaugeValue,
            metric_value = fdiv ops (float64 ops (DesiredCool (Runtime t))) (float64 ops 10),
            labelValues = [Identifier t, Name t]\<rparr>,
          \<lparr>desc = targetTemperatureMin (NewEcobeeCollector cl p), valueType = GaugeValue,
            metric_value = fdiv ops (float64 ops (DesiredHeat (Runtime t))) (float64 ops 10),
            labelValues = [Identifier t, Name t]\<rparr>,
          \<lparr>desc = currentHvacMode (NewEcobeeCollector cl p), valueType = GaugeValue,
            metric_value = float64 ops 0,
            labelValues = [Identifier t, Name t, HvacMode (Settings t)]\<rparr>]
       else []) @
      concat (map (\<lambda>s. sent (fst (sensor_iter ops (NewEcobeeCollector cl p) [Identifier t, Name t] s)))
                  (RemoteSensors t))"
  by (simp add: thermostat_iter_ok sent_concat comp_def)

lemma sent_summary_iter:
  "sent (fst (summary_iter ops (NewEcobeeCollector cl p) t)) =
      [\<lparr>desc = fanStatus (NewEcobeeCollector cl p), valueType = GaugeValue,
          metric_value = (if Fan (EquipmentStatus t) then float64 ops 1 else float64 ops 0),
          labelValues = [summary_Identifier t, summary_Name t]\<rparr>,
       \<lparr>desc = mode (NewEcobeeCollector cl p), valueType = GaugeValue,
          metric_value = (if CompCool1 (EquipmentStatus t) then float64 ops 1 else float64 ops 0),
          labelValues = [summary_Identifier t, summary_Name t, ''cool'']\<rparr>,
       \<lparr>desc = mode (NewEcobeeCollector cl p), valueType = GaugeValue,
          metric_value = (if HeatPump (EquipmentStatus t) then float64 ops 1 else float64 ops 0),
          labelValues = [summary_Identifier t, summary_Name t, ''heat'']\<rparr>,
       \<lparr>desc = mode (NewEcobeeCollector cl p), valueType = GaugeValue,
          metric_value = (if AuxHeat1 (EquipmentStatus t) then float64 ops 1 else float64 ops 0),
          labelValues = [summary_Identifier t, summary_Name t, ''aux'']\<rparr>]"
  by (simp add: summary_iter_ok)

lemma sent_Collect_ok:
  assumes "GetThermostats cl thermostats_selection = Inr tt"
    and "GetThermostatSummary cl (summary_selection (map Identifier tt)) = Inr ts"
  shows "sent (fst (Collect_metrics ops clk (NewEcobeeCollector cl p))) =
     \<lparr>desc = fetchTime (NewEcobeeCollector cl p), valueType = GaugeValue,
        metric_value = Seconds ops (Sub (Now_end clk) (Now_start clk)), labelValues = []\<rparr> #
     concat (map (\<lambda>t. sent (fst (summary_iter ops (NewEcobeeCollector cl p) t))) ts) @
     concat (map (\<lambda>t. sent (fst (thermostat_iter ops (NewEcobeeCollector cl p) t))) tt)"
  by (simp add: Collect_ok [OF assms] sent_concat comp_def)

lemma filter_sensor_samples:
  assumes "\<not> P (inUse (NewEcobeeCollector cl p))" and "\<not> P (temperature (NewEcobeeCollector cl p))"
    and "\<not> P (humidity (NewEcobeeCollector cl p))" and "\<not> P (occupancy (NewEcobeeCollector cl p))"
    and "length tFields = 2"
  shows "filter (\<lambda>m. P (desc m)) (sent (fst (sensor_iter ops (NewEcobeeCollector cl p) tFields s))) = []"
  using assms sent_sensor_iter_cases [OF assms(5)]
  by (fastforce simp add: filter_empty_conv)

lemma descs_differ:
  "distinct (descriptors (NewEcobeeCollector cl p))"
  using distinct_names [of cl p] by (simp only: distinct_map)

lemma concat_map_if_filter:
  "concat (map (\<lambda>x. if Q x then f x else []) xs) = concat (map f (filter Q xs))"
  by (induction xs) simp_all

lemma sent_sensor_iter:
  assumes "length tFields = 2"
  shows "sent (fst (sensor_iter ops (NewEcobeeCollector cl p) tFields s)) =
     \<lparr>desc = inUse (NewEcobeeCollector cl p), valueType = GaugeValue,
        metric_value = (if InUse s then float64 ops 1 else float64 ops 0),
        labelValues = tFields @ [ID s, sensor_Name s, sensor_Type s]\<rparr> #
     concat (map (\<lambda>sc. sent (fst (capability_iter ops (NewEcobeeCollector cl p)
                                 (tFields @ [ID s, sensor_Name s, sensor_Type s]) sc)))
                 (Capability s))"
  by (simp add: sensor_iter_ok [OF assms] sent_concat comp_def)

lemma example_calls:
  "GetThermostats example_client thermostats_selection = Inr [hall, attic]"
  "GetThermostatSummary example_client (summary_selection (map Identifier [hall, attic])) =
     Inr [hall_summary]"
  by (simp_all add: example_client_def)

lemma example_parses:
  "example_ParseFloat ''725'' = Inr 725"
  "example_ParseFloat ''41'' = Inr 41"
  "example_ParseFloat ''abc'' = Inl ''strconv.ParseFloat: parsing abc: invalid syntax''"
  "example_ParseFloat ''unknown'' = Inl ''strconv.ParseFloat: parsing unknown: invalid syntax''"
  by (simp_all add: example_ParseFloat_def digit_of_def)

section \<open>Samples of summaries and thermostats\<close>


text \<open>
  C7. In a cycle whose two calls succeed, the fanStatus and mode samples sent are, in
  order, four for each summary record: one fanStatus sample labelled [id, name]
  with value 1 if the fan flag is set and 0 otherwise, and three mode samples labelled
  [id, name, mode] for the modes cool, heat and aux, whose values are 1 or 0 after
  the flags CompCool1, HeatPump and AuxHeat1. No other fanStatus or mode sample is sent.
\<close>

theorem summary_samples:
  assumes "GetThermostats cl thermostats_selection = Inr tt"
    and "GetThermostatSummary cl (summary_selection (map Identifier tt)) = Inr ts"
    and "c = NewEcobeeCollector cl p"
  shows "filter (\<lambda>m. desc m = fanStatus c \<or> desc m = mode c)
           (sent (fst (Collect_metrics ops clk c))) =
         concat (map (\<lambda>t.
           [\<lparr>desc = fanStatus c, valueType = GaugeValue,
              metric_value = (if Fan (EquipmentStatus t) then float64 ops 1 else float64 ops 0),
              labelValues = [summary_Identifier t, summary_Name t]\<rparr>,
            \<lparr>desc = mode c, valueType = GaugeValue,
              metric_value = (if CompCool1 (EquipmentStatus t) then float64 ops 1 else float64 ops 0),
              labelValues = [summary_Identifier t, summary_Name t, ''cool'']\<rparr>,
            \<lparr>desc = mode c, valueType = GaugeValue,
              metric_value = (if HeatPump (EquipmentStatus t) then float64 ops 1 else float64 ops 0),
              labelValues = [summary_Identifier t, summary_Name t, ''heat'']\<rparr>,
            \<lparr>desc = mode c, valueType = GaugeValue,
              metric_value = (if AuxHeat1 (EquipmentStatus t) then float64 ops 1 else float64 ops 0),
              labelValues = [summary_Identifier t, summary_Name t, ''aux'']\<rparr>]) ts)"
proof -
  let ?P = "\<lambda>d. d = fanStatus c \<or> d = mode c"
  have d: "distinct (descriptors c)"
    using assms(3) descs_differ by simp
  have no_fetch: "\<not> ?P (fetchTime c)"
    using d by (auto simp add: descriptors_def)
  have no_thermostat: "filter (\<lambda>m. ?P (desc m)) (sent (fst (thermostat_iter ops c t))) = []" for t
  proof -
    have "filter (\<lambda>m. ?P (desc m)) (sent (fst (sensor_iter ops c [Identifier t, Name t] s))) = []" for s
      unfolding assms(3)
      by (rule filter_sensor_samples) (use d in \<open>auto simp add: descriptors_def assms(3)\<close>)
    moreover have "\<not> ?P (actualTemperature c)" "\<not> ?P (targetTemperatureMax c)"
      "\<not> ?P (targetTemperatureMin c)" "\<not> ?P (currentHvacMode c)"
      using d by (auto simp add: descriptors_def)
    ultimately show ?thesis
      by (simp add: assms(3) sent_thermostat_iter filter_concat comp_def)
  qed
  have all_summary: "filter (\<lambda>m. ?P (desc m)) (sent (fst (summary_iter ops c t))) =
      sent (fst (summary_iter ops c t))" for t
    by (simp add: assms(3) sent_summary_iter)
  show ?thesis
    using no_fetch no_thermostat all_summary
    by (simp add: assms(3) sent_Collect_ok [OF assms(1,2)] filter_concat comp_def
        sent_summary_iter)
qed

theorem summary_samples_witness:
  "GetThermostats example_client thermostats_selection = Inr [hall, attic]
   \<and> GetThermostatSummary example_client (summary_selection (map Identifier [hall, attic])) =
       Inr [hall_summary]
   \<and> filter (\<lambda>m. desc m = fanStatus (NewEcobeeCollector example_client ''ecobee'') \<or>
                 desc m = mode (NewEcobeeCollector example_client ''ecobee''))
       (sent (fst (Collect_metrics example_ops example_clock
                     (NewEcobeeCollector example_client ''ecobee'')))) =
      [\<lparr>desc = fanStatus (NewEcobeeCollector example_client ''ecobee''),
         valueType = GaugeValue, metric_value = 1, labelValues = [''411'', ''Hall'']\<rparr>,
       \<lparr>desc = mode (NewEcobeeCollector example_client ''ecobee''),
         valueType = GaugeValue, metric_value = 1, labelValues = [''411'', ''Hall'', ''cool'']\<rparr>,
       \<lparr>desc = mode (NewEcobeeCollector example_client ''ecobee''),
         valueType = GaugeValue, metric_value = 0, labelValues = [''411'', ''Hall'', ''heat'']\<rparr>,
       \<lparr>desc = mode (NewEcobeeCollector example_client ''ecobee''),
         valueType = GaugeValue, metric_value = 0, labelValues = [''411'', ''Hall'', ''aux'']\<rparr>]"
  using example_calls
    summary_samples [OF example_calls refl, where ops = example_ops and clk = example_clock and p = "''ecobee''"]
  by (simp add: hall_summary_def example_ops_def)

text \<open>
  C3. In a cycle whose two calls succeed, the samples of the four thermostat-level
  descriptors are, in order, four for each thermostat whose Connected flag is set:
  actualTemperature, targetTemperatureMax and targetTemperatureMin, with the values
  float64(ActualTemperature)/10, float64(DesiredCool)/10 and float64(DesiredHeat)/10 and
  the labels [id, name], and currentHvacMode with the value 0 and the labels
  [id, name, HvacMode].
\<close>

theorem connected_thermostat_samples:
  assumes "GetThermostats cl thermostats_selection = Inr tt"
    and "GetThermostatSummary cl (summary_selection (map Identifier tt)) = Inr ts"
    and "c = NewEcobeeCollector cl p"
  shows "filter (\<lambda>m. desc m = actualTemperature c \<or> desc m = targetTemperatureMax c \<or>
                     desc m = targetTemperatureMin c \<or> desc m = currentHvacMode c)
           (sent (fst (Collect_metrics ops clk c))) =
         concat (map (\<lambda>t.
           [\<lparr>desc = actualTemperature c, valueType = GaugeValue,
              metric_value = fdiv ops (float64 ops (ActualTemperature (Runtime t))) (float64 ops 10),
              labelValues = [Identifier t, Name t]\<rparr>,
            \<lparr>desc = targetTemperatureMax c, valueType = GaugeValue,
              metric_value = fdiv ops (float64 ops (DesiredCool (Runtime t))) (float64 ops 10),
              labelValues = [Identifier t, Name t]\<rparr>,
            \<lparr>desc = targetTemperatureMin c, valueType = GaugeValue,
              metric_value = fdiv ops (float64 ops (DesiredHeat (Runtime t))) (float64 ops 10),
              labelValues = [Identifier t, Name t]\<rparr>,
            \<lparr>desc = currentHvacMode c, valueType = GaugeValue,
              metric_value = float64 ops 0,
              labelValues = [Identifier t, Name t, HvacMode (Settings t)]\<rparr>])
           (filter (\<lambda>t. Connected (Runtime t)) tt))"
proof -
  let ?P = "\<lambda>d. d = actualTemperature c \<or> d = targetTemperatureMax c \<or>
                 d = targetTemperatureMin c \<or> d = currentHvacMode c"
  let ?four = "\<lambda>t.
           [\<lparr>desc = actualTemperature c, valueType = GaugeValue,
              metric_value = fdiv ops (float64 ops (ActualTemperature (Runtime t))) (float64 ops 10),
              labelValues = [Identifier t, Name t]\<rparr>,
            \<lparr>desc = targetTemperatureMax c, valueType = GaugeValue,
              metric_value = fdiv ops (float64 ops (DesiredCool (Runtime t))) (float64 ops 10),
              labelValues = [Identifier t, Name t]\<rparr>,
            \<lparr>desc = targetTemperatureMin c, valueType = GaugeValue,
              metric_value = fdiv ops (float64 ops (DesiredHeat (Runtime t))) (float64 ops 10),
              labelValues = [Identifier t, Name t]\<rparr>,
            \<lparr>desc = currentHvacMode c, valueType = GaugeValue,
              metric_value = float64 ops 0,
              labelValues = [Identifier t, Name t, HvacMode (Settings t)]\<rparr>]"
  have d: "distinct (descriptors c)"
    using assms(3) descs_differ by simp
  have no_fetch: "\<not> ?P (fetchTime c)"
    using d by (auto simp add: descriptors_def)
  have no_summary: "filter (\<lambda>m. ?P (desc m)) (sent (fst (summary_iter ops c r))) = []" for r
  proof -
    have "\<not> ?P (fanStatus c)" "\<not> ?P (mode c)"
      using d by (auto simp add: descriptors_def)
    then show ?thesis
      by (simp add: assms(3) sent_summary_iter)
  qed
  have thermostat: "filter (\<lambda>m. ?P (desc m)) (sent (fst (thermostat_iter ops c t))) =
      (if Connected (Runtime t) then ?four t else [])" for t
  proof -
    have "filter (\<lambda>m. ?P (desc m)) (sent (fst (sensor_iter ops c [Identifier t, Name t] s))) = []" for s
      unfolding assms(3)
      by (rule filter_sensor_samples) (use d in \<open>auto simp add: descriptors_def assms(3)\<close>)
    then show ?thesis
      by (simp add: assms(3) sent_thermostat_iter filter_concat comp_def)
  qed
  have "filter (\<lambda>m. ?P (desc m)) (sent (fst (Collect_metrics ops clk c))) =
      concat (map (\<lambda>t. if Connected (Runtime t) then ?four t else []) tt)"
    using no_fetch no_summary thermostat
    by (simp add: assms(3) sent_Collect_ok [OF assms(1,2)] filter_concat comp_def)
  then show ?thesis
    by (simp only: concat_map_if_filter)
qed

theorem connected_thermostat_samples_witness:
  "GetThermostats example_client thermostats_selection = Inr [hall, attic]
   \<and> GetThermostatSummary example_client (summary_selection (map Identifier [hall, attic])) =
       Inr [hall_summary]
   \<and> filter (\<lambda>m. desc m = actualTemperature (NewEcobeeCollector example_client ''ecobee'') \<or>
                 desc m = targetTemperatureMax (NewEcobeeCollector example_client ''ecobee'') \<or>
                 desc m = targetTemperatureMin (NewEcobeeCollector example_client ''ecobee'') \<or>
                 desc m = currentHvacMode (NewEcobeeCollector example_client ''ecobee''))
       (sent (fst (Collect_metrics example_ops example_clock
                     (NewEcobeeCollector example_client ''ecobee'')))) =
      [\<lparr>desc = actualTemperature (NewEcobeeCollector example_client ''ecobee''),
         valueType = GaugeValue, metric_value = 70.5, labelValues = [''411'', ''Hall'']\<rparr>,
       \<lparr>desc = targetTemperatureMax (NewEcobeeCollector example_client ''ecobee''),
         valueType = GaugeValue, metric_value = 76, labelValues = [''411'', ''Hall'']\<rparr>,
       \<lparr>desc = targetTemperatureMin (NewEcobeeCollector example_client ''ecobee''),
         valueType = GaugeValue, metric_value = 68, labelValues = [''411'', ''Hall'']\<rparr>,
       \<lparr>desc = currentHvacMode (NewEcobeeCollector example_client ''ecobee''),
         valueType = GaugeValue, metric_value = 0, labelValues = [''411'', ''Hall'', ''heat'']\<rparr>]"
  using example_calls
    connected_thermostat_samples [OF example_calls refl, where ops = example_ops and clk = example_clock and p = "''ecobee''"]
  by (simp add: hall_def attic_def example_ops_def)

text \<open>
  C4. In a cycle whose two calls succeed, the loop iteration of a thermostat whose
  Connected flag is unset (the thermostat at index \<open>i\<close>) sends, for each of its remote
  sensors in order, the inUse sample and then what each capability of that sensor
  sends; none of these is a sample of actualTemperature, targetTemperatureMax,
  targetTemperatureMin or currentHvacMode. These samples stand in the output of the
  cycle between those of the earlier and those of the later thermostats.
\<close>

theorem disconnected_thermostat_samples:
  assumes "GetThermostats cl thermostats_selection = Inr tt"
    and "GetThermostatSummary cl (summary_selection (map Identifier tt)) = Inr ts"
    and "c = NewEcobeeCollector cl p"
    and "i < length tt"
    and "\<not> Connected (Runtime (tt ! i))"
  shows "sent (fst (thermostat_iter ops c (tt ! i))) =
           concat (map (\<lambda>s.
             \<lparr>desc = inUse c, valueType = GaugeValue,
               metric_value = (if InUse s then float64 ops 1 else float64 ops 0),
               labelValues = [Identifier (tt ! i), Name (tt ! i), ID s, sensor_Name s, sensor_Type s]\<rparr> #
             concat (map (\<lambda>sc. sent (fst (capability_iter ops c
                       [Identifier (tt ! i), Name (tt ! i), ID s, sensor_Name s, sensor_Type s] sc)))
                     (Capability s)))
           (RemoteSensors (tt ! i)))
       \<and> filter (\<lambda>m. desc m = actualTemperature c \<or> desc m = targetTemperatureMax c \<or>
                     desc m = targetTemperatureMin c \<or> desc m = currentHvacMode c)
           (sent (fst (thermostat_iter ops c (tt ! i)))) = []
       \<and> sent (fst (Collect_metrics ops clk c)) =
           sent (fst (andThen (emit (fetchTime c) (Seconds ops (Sub (Now_end clk) (Now_start clk))) [])
                     (andThen (for_range (summary_iter ops c) ts)
                              (for_range (thermostat_iter ops c) (take i tt))))) @
           sent (fst (thermostat_iter ops c (tt ! i))) @
           sent (fst (for_range (thermostat_iter ops c) (drop (Suc i) tt)))"
proof -
  let ?P = "\<lambda>d. d = actualTemperature c \<or> d = targetTemperatureMax c \<or>
                 d = targetTemperatureMin c \<or> d = currentHvacMode c"
  have d: "distinct (descriptors c)"
    using assms(3) descs_differ by simp
  have first: "sent (fst (thermostat_iter ops c (tt ! i))) =
      concat (map (\<lambda>s. sent (fst (sensor_iter ops c [Identifier (tt ! i), Name (tt ! i)] s)))
                  (RemoteSensors (tt ! i)))"
    using assms(5) by (simp add: assms(3) sent_thermostat_iter)
  have sensors: "filter (\<lambda>m. ?P (desc m)) (sent (fst (sensor_iter ops c [Identifier (tt ! i), Name (tt ! i)] s))) = []" for s
    unfolding assms(3)
    by (rule filter_sensor_samples) (use d in \<open>auto simp add: descriptors_def assms(3)\<close>)
  have second: "filter (\<lambda>m. ?P (desc m)) (sent (fst (thermostat_iter ops c (tt ! i)))) = []"
    using sensors by (simp add: first filter_concat comp_def)
  have split: "tt = take i tt @ tt ! i # drop (Suc i) tt"
    using assms(4) by (simp add: id_take_nth_drop)
  have "concat (map (\<lambda>t. sent (fst (thermostat_iter ops c t))) tt) =
      concat (map (\<lambda>t. sent (fst (thermostat_iter ops c t))) (take i tt)) @
      sent (fst (thermostat_iter ops c (tt ! i))) @
      concat (map (\<lambda>t. sent (fst (thermostat_iter ops c t))) (drop (Suc i) tt))"
    by (subst split) (simp del: append_take_drop_id)
  then have third: "sent (fst (Collect_metrics ops clk c)) =
           sent (fst (andThen (emit (fetchTime c) (Seconds ops (Sub (Now_end clk) (Now_start clk))) [])
                     (andThen (for_range (summary_iter ops c) ts)
                              (for_range (thermostat_iter ops c) (take i tt))))) @
           sent (fst (thermostat_iter ops c (tt ! i))) @
           sent (fst (for_range (thermostat_iter ops c) (drop (Suc i) tt)))"
    by (simp add: assms(3) sent_Collect_ok [OF assms(1,2)] emit_ok labels_of_collector
        summaries_loop thermostats_loop sent_concat comp_def)
  show ?thesis
    using first second third by (simp add: assms(3) sent_sensor_iter)
qed

theorem disconnected_thermostat_samples_witness:
  "GetThermostats example_client thermostats_selection = Inr [hall, attic]
   \<and> GetThermostatSummary example_client (summary_selection (map Identifier [hall, attic])) =
       Inr [hall_summary]
   \<and> (1::nat) < length [hall, attic]
   \<and> \<not> Connected (Runtime ([hall, attic] ! 1))
   \<and> sent (fst (thermostat_iter example_ops (NewEcobeeCollector example_client ''ecobee'')
                   ([hall, attic] ! 1))) =
      [\<lparr>desc = inUse (NewEcobeeCollector example_client ''ecobee''), valueType = GaugeValue,
         metric_value = 0,
         labelValues = [''412'', ''Attic'', ''rs:200'', ''Porch'', ''ecobee3_remote_sensor'']\<rparr>,
       \<lparr>desc = occupancy (NewEcobeeCollector example_client ''ecobee''), valueType = GaugeValue,
         metric_value = 0,
         labelValues = [''412'', ''Attic'', ''rs:200'', ''Porch'', ''ecobee3_remote_sensor'']\<rparr>]"
proof -
  have h: "(1::nat) < length [hall, attic]" "\<not> Connected (Runtime ([hall, attic] ! 1))"
    by (simp_all add: attic_def)
  have e: "emit (occupancy (NewEcobeeCollector example_client ''ecobee'')) v
             [''412'', ''Attic'', ''rs:200'', ''Porch'', ''ecobee3_remote_sensor''] =
           ([SendMetric \<lparr>desc = occupancy (NewEcobeeCollector example_client ''ecobee''),
               valueType = GaugeValue, metric_value = v,
               labelValues = [''412'', ''Attic'', ''rs:200'', ''Porch'', ''ecobee3_remote_sensor'']\<rparr>],
            None)" for v :: real
    by (simp add: emit_ok labels_of_collector)
  show ?thesis
    using example_calls h
      disconnected_thermostat_samples [OF example_calls refl h, where ops = example_ops and clk = example_clock and p = "''ecobee''"]
    by (simp add: attic_def porch_def capability_iter_def example_ops_def example_parses e)
qed

section \<open>Capabilities\<close>






section \<open>The names of the registry\<close>


lemma names_list:
  "map fqName (descriptors (NewEcobeeCollector cl p)) =
     map (\<lambda>s. p @ ''_'' @ s)
       [''fetch_time'', ''actual_temperature'', ''target_temperature_max'',
        ''target_temperature_min'', ''temperature'', ''humidity'', ''occupancy'', ''in_use'',
        ''currenthvacmode'', ''fan_status'', ''mode'']"
  by (simp add: descriptors_def names_of_collector)

lemma rev_names:
  "rev ` set (map fqName (descriptors (NewEcobeeCollector cl p))) =
     (\<lambda>s. s @ rev p) ` set (map rev
       [''_fetch_time'', ''_actual_temperature'', ''_target_temperature_max'',
        ''_target_temperature_min'', ''_temperature'', ''_humidity'', ''_occupancy'', ''_in_use'',
        ''_currenthvacmode'', ''_fan_status'', ''_mode''])"
  by (simp add: descriptors_def names_of_collector)

lemma reversed_names_disjoint:
  assumes "P \<noteq> Q" and "P \<noteq> ''lautca_'' @ Q" and "Q \<noteq> ''lautca_'' @ P"
  shows "(\<lambda>s. s @ P) ` set (map rev
       [''_fetch_time'', ''_actual_temperature'', ''_target_temperature_max'',
        ''_target_temperature_min'', ''_temperature'', ''_humidity'', ''_occupancy'', ''_in_use'',
        ''_currenthvacmode'', ''_fan_status'', ''_mode'']) \<inter>
      (\<lambda>s. s @ Q) ` set (map rev
       [''_fetch_time'', ''_actual_temperature'', ''_target_temperature_max'',
        ''_target_temperature_min'', ''_temperature'', ''_humidity'', ''_occupancy'', ''_in_use'',
        ''_currenthvacmode'', ''_fan_status'', ''_mode'']) = {}"
  using assms by auto

lemma names_disjoint:
  assumes "p \<noteq> q" and "p \<noteq> q @ ''_actual''" and "q \<noteq> p @ ''_actual''"
  shows "set (map fqName (descriptors (NewEcobeeCollector cl p))) \<inter>
         set (map fqName (descriptors (NewEcobeeCollector cl' q))) = {}"
proof -
  have a: "rev p \<noteq> rev q"
    using assms(1) by simp
  have swap: "x \<noteq> y @ ''_actual'' \<Longrightarrow> rev x \<noteq> ''lautca_'' @ rev y" for x y :: string
  proof
    assume "x \<noteq> y @ ''_actual''" and "rev x = ''lautca_'' @ rev y"
    from this(2) have "rev (rev x) = rev (''lautca_'' @ rev y)"
      by (rule arg_cong)
    then have "x = y @ ''_actual''"
      by simp
    with \<open>x \<noteq> y @ ''_actual''\<close> show False
      by contradiction
  qed
  have b: "rev p \<noteq> ''lautca_'' @ rev q"
    using assms(2) by (rule swap)
  have c: "rev q \<noteq> ''lautca_'' @ rev p"
    using assms(3) by (rule swap)
  have "rev ` set (map fqName (descriptors (NewEcobeeCollector cl p))) \<inter>
        rev ` set (map fqName (descriptors (NewEcobeeCollector cl' q))) = {}"
    unfolding rev_names using a b c by (rule reversed_names_disjoint)
  then show ?thesis
    by blast
qed

text \<open>
  C8, as the specification states it: registries built with distinct prefixes share no
  descriptor name. The prefixes ecobee and ecobee_actual are distinct, and the name
  ecobee_actual_temperature belongs to both registries: it is the actualTemperature
  descriptor of the first and the temperature descriptor of the second.
\<close>

theorem prefix_collision_counterexample:
  "''ecobee'' \<noteq> ''ecobee_actual''
   \<and> fqName (actualTemperature (NewEcobeeCollector example_client ''ecobee'')) =
       fqName (temperature (NewEcobeeCollector example_client ''ecobee_actual''))
   \<and> fqName (actualTemperature (NewEcobeeCollector example_client ''ecobee''))
         \<in> set (map fqName (descriptors (NewEcobeeCollector example_client ''ecobee'')))
           \<inter> set (map fqName (descriptors (NewEcobeeCollector example_client ''ecobee_actual'')))"
  by (simp add: names_of_collector descriptors_def)

text \<open>
  C8, amended. The constructor is total; the name of each of the eleven descriptors is
  the prefix, an underscore and the metric suffix; the eleven names of one registry are
  pairwise distinct; with distinct prefixes the descriptors of the same metric have
  different names, and the two registries share no name at all unless one prefix is the
  other followed by \<open>_actual\<close>. Describe sends exactly the eleven descriptors, calls the
  API not once, and returns normally.
\<close>

theorem registry_names:
  "map fqName (descriptors (NewEcobeeCollector cl p)) =
     map (\<lambda>s. p @ ''_'' @ s)
       [''fetch_time'', ''actual_temperature'', ''target_temperature_max'',
        ''target_temperature_min'', ''temperature'', ''humidity'', ''occupancy'', ''in_use'',
        ''currenthvacmode'', ''fan_status'', ''mode'']
   \<and> distinct (map fqName (descriptors (NewEcobeeCollector cl p)))
   \<and> (p \<noteq> q \<longrightarrow>
        list_all2 (\<lambda>a b. a \<noteq> b)
          (map fqName (descriptors (NewEcobeeCollector cl p)))
          (map fqName (descriptors (NewEcobeeCollector cl' q))))
   \<and> (p \<noteq> q \<and> p \<noteq> q @ ''_actual'' \<and> q \<noteq> p @ ''_actual'' \<longrightarrow>
        set (map fqName (descriptors (NewEcobeeCollector cl p))) \<inter>
        set (map fqName (descriptors (NewEcobeeCollector cl' q))) = {})
   \<and> sent_descs (fst (Describe (NewEcobeeCollector cl p) :: 'f run)) = descriptors (NewEcobeeCollector cl p)
   \<and> length (fst (Describe (NewEcobeeCollector cl p) :: 'f run)) = 11
   \<and> filter is_call (fst (Describe (NewEcobeeCollector cl p) :: 'f run)) = []
   \<and> snd (Describe (NewEcobeeCollector cl p) :: 'f run) = None"
proof -
  have same_metric: "p \<noteq> q \<longrightarrow>
        list_all2 (\<lambda>a b. a \<noteq> b)
          (map fqName (descriptors (NewEcobeeCollector cl p)))
          (map fqName (descriptors (NewEcobeeCollector cl' q)))"
    by (simp add: descriptors_def names_of_collector)
  have describe: "length (fst (Describe (NewEcobeeCollector cl p) :: 'f run)) = 11"
    "filter is_call (fst (Describe (NewEcobeeCollector cl p) :: 'f run)) = []"
    "snd (Describe (NewEcobeeCollector cl p) :: 'f run) = None"
    "sent_descs (fst (Describe (NewEcobeeCollector cl p) :: 'f run)) = descriptors (NewEcobeeCollector cl p)"
    by (simp_all add: Describe_def descriptors_def is_call_def sent_descs_def)
  show ?thesis
    using names_list [of cl p] distinct_names [of cl p] same_metric describe
      names_disjoint [of p q cl cl']
    by (intro conjI impI) blast+
qed

theorem registry_names_witness:
  "''ecobee'' \<noteq> ''nest'' \<and> ''ecobee'' \<noteq> ''nest'' @ ''_actual'' \<and> ''nest'' \<noteq> ''ecobee'' @ ''_actual''
   \<and> list_all2 (\<lambda>a b. a \<noteq> b)
        (map fqName (descriptors (NewEcobeeCollector example_client ''ecobee'')))
        (map fqName (descriptors (NewEcobeeCollector nothing_client ''nest'')))
   \<and> set (map fqName (descriptors (NewEcobeeCollector example_client ''ecobee''))) \<inter>
       set (map fqName (descriptors (NewEcobeeCollector nothing_client ''nest''))) = {}
   \<and> map fqName (descriptors (NewEcobeeCollector example_client ''ecobee'')) =
       [''ecobee_fetch_time'', ''ecobee_actual_temperature'', ''ecobee_target_temperature_max'',
        ''ecobee_target_temperature_min'', ''ecobee_temperature'', ''ecobee_humidity'',
        ''ecobee_occupancy'', ''ecobee_in_use'', ''ecobee_currenthvacmode'', ''ecobee_fan_status'',
        ''ecobee_mode'']"
proof -
  have h: "''ecobee'' \<noteq> ''nest''" "''ecobee'' \<noteq> ''nest'' @ ''_actual''"
    "''nest'' \<noteq> ''ecobee'' @ ''_actual''"
    by simp_all
  note r = registry_names [where 'f = real and p = "''ecobee''" and q = "''nest''"
      and cl = example_client and cl' = nothing_client]
  from r have names: "map fqName (descriptors (NewEcobeeCollector example_client ''ecobee'')) =
       [''ecobee_fetch_time'', ''ecobee_actual_temperature'', ''ecobee_target_temperature_max'',
        ''ecobee_target_temperature_min'', ''ecobee_temperature'', ''ecobee_humidity'',
        ''ecobee_occupancy'', ''ecobee_in_use'', ''ecobee_currenthvacmode'', ''ecobee_fan_status'',
        ''ecobee_mode'']"
    by simp
  show ?thesis
    using h r names by blast
qed

section \<open>Labels and panics\<close>










section \<open>A cycle without thermostats\<close>





end
